theory Spec2Isabelle
  imports Main "HOL-Library.AList" "HOL-Library.Sublist"
begin

section \<open>Python values and truthiness\<close>

text \<open>
  The handlers of \<^verbatim>\<open>main.py\<close> only ever test request attributes and header values for
  truthiness (\<^verbatim>\<open>if request.phone:\<close>, \<^verbatim>\<open>a or b\<close>, \<^verbatim>\<open>not ap_name\<close>) and otherwise carry them
  along unchanged. A Python value is therefore modelled by its constructor and content;
  a pydantic model instance is the list of its fields, each under the key that
  \<^verbatim>\<open>model_dump(by_alias=True)\<close> gives it, in declaration order.
\<close>

datatype pyval =
    PyNone
  | PyBool bool
  | PyInt int
  | PyStr string
  | PyList "pyval list"
  | PyDict "(string \<times> pyval) list"
  | PyModel "(string \<times> pyval) list"

text \<open>
  Python's \<^verbatim>\<open>bool(v)\<close>: \<^verbatim>\<open>None\<close>, \<^verbatim>\<open>False\<close>, \<^verbatim>\<open>0\<close>, the empty string, list and dict are
  falsy; a model instance defines neither \<^verbatim>\<open>__bool__\<close> nor \<^verbatim>\<open>__len__\<close> and is truthy.
\<close>

fun truthy :: "pyval \<Rightarrow> bool" where
  "truthy PyNone = False"
| "truthy (PyBool b) = b"
| "truthy (PyInt i) = (i \<noteq> 0)"
| "truthy (PyStr s) = (s \<noteq> [])"
| "truthy (PyList xs) = (xs \<noteq> [])"
| "truthy (PyDict kvs) = (kvs \<noteq> [])"
| "truthy (PyModel fs) = True"

text \<open>
  A header parameter or a setting of type \<^verbatim>\<open>str | None\<close> is a \<open>string option\<close>;
  it is truthy when it is a non-empty string.
\<close>

fun truthy_str :: "string option \<Rightarrow> bool" where
  "truthy_str None = False"
| "truthy_str (Some s) = (s \<noteq> [])"

text \<open>Python's \<^verbatim>\<open>a or b\<close> on optional strings: \<^verbatim>\<open>a\<close> when it is truthy, else \<^verbatim>\<open>b\<close>.\<close>

definition py_or :: "string option \<Rightarrow> string option \<Rightarrow> string option" where
  "py_or a b = (if truthy_str a then a else b)"

section \<open>Errors\<close>

text \<open>
  Every \<^verbatim>\<open>raise\<close> of the source is a value: the two exceptions of \<^verbatim>\<open>exceptions.py\<close>,
  FastAPI's \<^verbatim>\<open>HTTPException\<close> with its status code and detail, the 422 that FastAPI
  answers when a declared parameter does not validate, and the \<^verbatim>\<open>JSONDecodeError\<close>
  of \<^verbatim>\<open>response.json()\<close>, which no handler of the source catches.
\<close>

datatype error =
    APIConnectionError string
  | InvalidRequestError string
  | HTTPException nat string
  | RequestValidationError string
  | JSONDecodeError

section \<open>Validation dependencies\<close>

text \<open>
  Modelled from the spec: \<^verbatim>\<open>models.py\<close> is not among the sources, so the two request
  classes are records of exactly the attributes that the validators read. The declared
  type of an attribute is not known; each holds a Python value.
\<close>

record ContactEnrichmentRequest =
  first_name :: pyval
  middle_name :: pyval
  last_name :: pyval
  phone :: pyval
  address :: pyval
  email :: pyval

record IdVerificationRequest =
  idv_first_name :: pyval
  idv_middle_name :: pyval
  idv_last_name :: pyval
  phones :: pyval
  address_line_1 :: pyval
  address_line_2 :: pyval
  emails :: pyval
  ssn :: pyval

text \<open>\<^verbatim>\<open>if c: criteria_count += 1\<close>\<close>

definition bump :: "bool \<Rightarrow> nat \<Rightarrow> nat" where
  "bump c criteria_count = (if c then criteria_count + 1 else criteria_count)"

definition contact_enrichment_detail :: string where
  "contact_enrichment_detail =
     ''Contact Enrichment requires at least two search criteria from: Name, Phone, Address, or Email.''"

definition contact_criteria_count :: "ContactEnrichmentRequest \<Rightarrow> nat" where
  "contact_criteria_count request =
     bump (truthy (email request))
       (bump (truthy (address request))
         (bump (truthy (phone request))
           (bump (truthy (first_name request) \<or> truthy (middle_name request)
                    \<or> truthy (last_name request)) 0)))"

definition validate_contact_enrichment_request ::
  "ContactEnrichmentRequest \<Rightarrow> error + ContactEnrichmentRequest" where
  "validate_contact_enrichment_request request =
     (if contact_criteria_count request < 2
      then Inl (HTTPException 400 contact_enrichment_detail)
      else Inr request)"

definition id_verification_detail :: string where
  "id_verification_detail =
     ''ID Verification requires at least two criteria from: SSN, Name, Phone, Address, or Email.''"

definition id_criteria_count :: "IdVerificationRequest \<Rightarrow> nat" where
  "id_criteria_count request =
     bump (truthy (ssn request))
       (bump (truthy (emails request))
         (bump (truthy (address_line_1 request) \<or> truthy (address_line_2 request))
           (bump (truthy (phones request))
             (bump (truthy (idv_first_name request) \<or> truthy (idv_middle_name request)
                      \<or> truthy (idv_last_name request)) 0))))"

definition validate_id_verification_request ::
  "IdVerificationRequest \<Rightarrow> error + IdVerificationRequest" where
  "validate_id_verification_request request =
     (if id_criteria_count request < 2
      then Inl (HTTPException 400 id_verification_detail)
      else Inr request)"

section \<open>Configuration\<close>

text \<open>
  \<^verbatim>\<open>config.Settings\<close>: the two optional credentials (the secret is the content of the
  \<^verbatim>\<open>SecretStr\<close>) and one upstream URL per operation, each overridable from the
  environment.
\<close>

record Settings =
  GALAXY_AP_NAME :: "string option"
  GALAXY_AP_PASSWORD :: "string option"
  PERSON_SEARCH_API_URL :: string
  REVERSE_PHONE_API_URL :: string
  CONTACT_ENRICHMENT_API_URL :: string
  CALLER_ID_API_URL :: string
  EMAIL_ID_API_URL :: string
  CONTACT_ID_API_URL :: string
  ADDRESS_ID_API_URL :: string
  ADDRESS_AUTOCOMPLETE_API_URL :: string
  ID_VERIFICATION_API_URL :: string
  CENSUS_SEARCH_API_URL :: string
  DIVORCE_SEARCH_API_URL :: string
  LINKEDIN_ID_API_URL :: string
  PROPERTY_SEARCH_V2_API_URL :: string
  BUSINESS_SEARCH_V2_API_URL :: string
  DOMAIN_SEARCH_API_URL :: string
  WORKPLACE_SEARCH_API_URL :: string
  BUSINESS_ID_API_URL :: string
  CONTACT_ENRICHMENT_PLUS_API_URL :: string
  CONTACT_ID_PLUS_API_URL :: string
  CALLER_ID_PLUS_API_URL :: string
  EMAIL_ID_PLUS_API_URL :: string
  ADDRESS_ID_PLUS_API_URL :: string
  CRIMINAL_SEARCH_V2_API_URL :: string
  DEBT_SEARCH_V2_API_URL :: string
  EVICTION_SEARCH_API_URL :: string
  MARRIAGE_SEARCH_API_URL :: string
  OFAC_SEARCH_API_URL :: string
  PRE_FORECLOSURE_SEARCH_V2_API_URL :: string
  PRO_LICENSE_SEARCH_API_URL :: string
  VEHICLE_OWNERSHIP_SEARCH_API_URL :: string
  ELEADVERIFY_API_URL :: string
  DATA_ALERTS_ADD_SUBSCRIPTION_API_URL :: string
  DATA_ALERTS_REMOVE_SUBSCRIPTION_API_URL :: string
  DATA_ALERTS_GET_SUBSCRIPTION_API_URL :: string
  DATA_ALERTS_COUNT_ALERT_API_URL :: string
  DATA_ALERTS_GET_ALERT_API_URL :: string

text \<open>The values of the class declaration, which hold when the environment sets nothing.\<close>

definition default_settings :: Settings where
  "default_settings = \<lparr>
     GALAXY_AP_NAME = None,
     GALAXY_AP_PASSWORD = None,
     PERSON_SEARCH_API_URL = ''https://devapi.enformion.com/PersonSearch'',
     REVERSE_PHONE_API_URL = ''https://devapi.enformion.com/ReversePhoneSearch'',
     CONTACT_ENRICHMENT_API_URL = ''https://devapi.enformion.com/Contact/Enrich'',
     CALLER_ID_API_URL = ''https://devapi.enformion.com/Phone/Enrich'',
     EMAIL_ID_API_URL = ''https://devapi.enformion.com/Email/Enrich'',
     CONTACT_ID_API_URL = ''https://devapi.enformion.com/Contact/Id'',
     ADDRESS_ID_API_URL = ''https://devapi.enformion.com/Address/Id'',
     ADDRESS_AUTOCOMPLETE_API_URL = ''https://devapi.enformion.com/Address/AutoComplete'',
     ID_VERIFICATION_API_URL = ''https://devapi.enformion.com/Identity/Verify_Id'',
     CENSUS_SEARCH_API_URL = ''https://devapi.enformion.com/CensusSearch'',
     DIVORCE_SEARCH_API_URL = ''https://devapi.enformion.com/DivorceSearch'',
     LINKEDIN_ID_API_URL = ''https://devapi.enformion.com/LinkedIn/Id'',
     PROPERTY_SEARCH_V2_API_URL = ''https://devapi.enformion.com/PropertyV2Search'',
     BUSINESS_SEARCH_V2_API_URL = ''https://devapi.enformion.com/BusinessV2Search'',
     DOMAIN_SEARCH_API_URL = ''https://devapi.enformion.com/DomainSearch'',
     WORKPLACE_SEARCH_API_URL = ''https://devapi.enformion.com/WorkplaceSearch'',
     BUSINESS_ID_API_URL = ''https://devapi.enformion.com/Business/Id'',
     CONTACT_ENRICHMENT_PLUS_API_URL = ''https://devapi.enformion.com/Contact/EnrichPlus'',
     CONTACT_ID_PLUS_API_URL = ''https://devapi.enformion.com/Contact/IdPlus'',
     CALLER_ID_PLUS_API_URL = ''https://devapi.enformion.com/Phone/EnrichPlus'',
     EMAIL_ID_PLUS_API_URL = ''https://devapi.enformion.com/Email/EnrichPlus'',
     ADDRESS_ID_PLUS_API_URL = ''https://devapi.enformion.com/Address/IdPlus'',
     CRIMINAL_SEARCH_V2_API_URL = ''https://devapi.enformion.com/CriminalSearch/V2'',
     DEBT_SEARCH_V2_API_URL = ''https://devapi.enformion.com/DebtSearch/V2'',
     EVICTION_SEARCH_API_URL = ''https://devapi.enformion.com/EvictionSearch'',
     MARRIAGE_SEARCH_API_URL = ''https://devapi.enformion.com/MarriageSearch'',
     OFAC_SEARCH_API_URL = ''https://devapi.enformion.com/OfacSearch'',
     PRE_FORECLOSURE_SEARCH_V2_API_URL = ''https://devapi.enformion.com/ForeclosureV2Search'',
     PRO_LICENSE_SEARCH_API_URL = ''https://devapi.enformion.com/ProLicenseSearch'',
     VEHICLE_OWNERSHIP_SEARCH_API_URL = ''https://devapi.enformion.com/VehicleRegistrationSearch'',
     ELEADVERIFY_API_URL = ''https://devapi.enformion.com/eIDV/eLeadVerify'',
     DATA_ALERTS_ADD_SUBSCRIPTION_API_URL = ''https://devapi.enformion.com/DataAlerts/AddSubscription'',
     DATA_ALERTS_REMOVE_SUBSCRIPTION_API_URL = ''https://devapi.enformion.com/DataAlerts/RemoveSubscription'',
     DATA_ALERTS_GET_SUBSCRIPTION_API_URL = ''https://devapi.enformion.com/DataAlerts/GetSubscription'',
     DATA_ALERTS_COUNT_ALERT_API_URL = ''https://devapi.enformion.com/DataAlerts/CountAlert'',
     DATA_ALERTS_GET_ALERT_API_URL = ''https://devapi.enformion.com/DataAlerts/GetAlert'' \<rparr>"

section \<open>The upstream call\<close>

text \<open>
  What \<^verbatim>\<open>client.post(api_url, json=request_body, headers=headers)\<close> is given, under the
  client's timeout of 15 seconds. The header dictionary is an association list in
  insertion order; the body is carried as it is, whatever its type.
\<close>

record 'b outbound_request =
  url :: string
  json_body :: 'b
  headers :: "(string \<times> string) list"
  timeout :: nat

text \<open>
  What the call does: it raises \<^verbatim>\<open>httpx.TimeoutException\<close>, or another
  \<^verbatim>\<open>httpx.RequestError\<close> (each with the text of \<^verbatim>\<open>str(exc)\<close>), or returns a response
  with a status code and a body text. The upstream is a function from the request sent to
  this outcome.
\<close>

datatype transport_outcome =
    TimeoutException string
  | RequestError string
  | Response nat string

type_synonym 'b transport = "'b outbound_request \<Rightarrow> transport_outcome"

text \<open>
  \<^verbatim>\<open>response.raise_for_status()\<close> of httpx raises \<^verbatim>\<open>HTTPStatusError\<close> unless
  \<^verbatim>\<open>response.is_success\<close>, which is a status code from 200 to 299.
\<close>

definition is_success :: "nat \<Rightarrow> bool" where
  "is_success status \<longleftrightarrow> 200 \<le> status \<and> status \<le> 299"

text \<open>The effects of a call: the requests posted and the records logged, oldest first.\<close>

datatype log_level = ERROR

record 'b io_state =
  posted :: "'b outbound_request list"
  logged :: "(log_level \<times> string) list"

text \<open>\<^verbatim>\<open>str(n)\<close> of a non-negative integer, for the f-string of the log record.\<close>

definition digit :: "nat \<Rightarrow> char" where
  "digit d = ''0123456789'' ! d"

function str_nat :: "nat \<Rightarrow> string" where
  "str_nat n = (if n < 10 then [digit n] else str_nat (n div 10) @ [digit (n mod 10)])"
  by pat_completeness auto
termination
  by (relation "measure id") auto

declare str_nat.simps [simp del]

definition credentials_message :: string where
  "credentials_message =
     ''API credentials are not configured. Provide (GALAXY_AP_NAME, GALAXY_AP_PASSWORD) via env/.env, ''
     @ ''or pass them as request headers (galaxy-ap-name, galaxy-ap-password).''"

definition upstream_failed_message :: string where
  "upstream_failed_message = ''The request to the upstream service failed.''"

text \<open>The header dictionary of lines 118 to 128; \<^verbatim>\<open>headers[k] = v\<close> is \<open>AList.update\<close>.\<close>

definition build_headers ::
  "string \<Rightarrow> string \<Rightarrow> string \<Rightarrow> string option \<Rightarrow> string option \<Rightarrow> (string \<times> string) list" where
  "build_headers ap_name ap_password search_type galaxy_client_session_id galaxy_client_type =
     (let headers0 = [(''galaxy-ap-name'', ap_name),
                      (''galaxy-ap-password'', ap_password),
                      (''galaxy-search-type'', search_type),
                      (''Content-Type'', ''application/json'')];
          headers1 = (if truthy_str galaxy_client_session_id
                      then AList.update ''galaxy-client-session-id''
                             (the galaxy_client_session_id) headers0
                      else headers0)
      in if truthy_str galaxy_client_type
         then AList.update ''galaxy-client-type'' (the galaxy_client_type) headers1
         else headers1)"

text \<open>
  \<^verbatim>\<open>call_enformion_api\<close>. The transport and the JSON parser of \<^verbatim>\<open>response.json()\<close>
  (\<open>None\<close> when it raises) are parameters; the state is passed through and returned.
\<close>

definition call_enformion_api ::
  "'b transport \<Rightarrow> (string \<Rightarrow> 'j option) \<Rightarrow> string \<Rightarrow> string \<Rightarrow> 'b \<Rightarrow> Settings
   \<Rightarrow> string option \<Rightarrow> string option \<Rightarrow> string option \<Rightarrow> string option
   \<Rightarrow> 'b io_state \<Rightarrow> (error + 'j) \<times> 'b io_state" where
  "call_enformion_api transport loads api_url search_type request_body settings
     galaxy_ap_name galaxy_ap_password galaxy_client_session_id galaxy_client_type w =
     (let ap_name = py_or galaxy_ap_name (GALAXY_AP_NAME settings);
          ap_password = py_or galaxy_ap_password
            (if truthy_str (GALAXY_AP_PASSWORD settings) then GALAXY_AP_PASSWORD settings else None)
      in if \<not> truthy_str ap_name \<or> \<not> truthy_str ap_password
         then (Inl (APIConnectionError credentials_message), w)
         else
           let request = \<lparr> url = api_url, json_body = request_body,
                           headers = build_headers (the ap_name) (the ap_password) search_type
                                       galaxy_client_session_id galaxy_client_type,
                           timeout = 15 \<rparr>;
               w1 = w\<lparr> posted := posted w @ [request] \<rparr>
           in case transport request of
                TimeoutException exc \<Rightarrow>
                  (Inl (APIConnectionError (''Request to EnformionGO API timed out: '' @ exc)), w1)
              | RequestError exc \<Rightarrow>
                  (Inl (APIConnectionError (''Error communicating with EnformionGO API: '' @ exc)), w1)
              | Response status body \<Rightarrow>
                  if \<not> is_success status
                  then (Inl (InvalidRequestError upstream_failed_message),
                        w1\<lparr> logged := logged w1 @
                          [(ERROR, ''Invalid request to EnformionGO API. Status: '' @ str_nat status
                                   @ '', Response: '' @ body)] \<rparr>)
                  else (case loads body of
                          None \<Rightarrow> (Inl JSONDecodeError, w1)
                        | Some parsed \<Rightarrow> (Inr parsed, w1)))"

section \<open>Request bodies\<close>

text \<open>
  \<^verbatim>\<open>model_dump(by_alias=True, exclude_none=True)\<close> of pydantic, on a model instance
  given by its fields: a field whose value is \<^verbatim>\<open>None\<close> is left out, every other field
  is kept under its alias, and nested model instances (also inside lists and
  dictionaries) are dumped the same way. Entries of a plain dictionary and elements of a
  list are not fields and stay, \<^verbatim>\<open>None\<close> or not.
\<close>

fun dump_value :: "pyval \<Rightarrow> pyval"
  and dump_fields :: "(string \<times> pyval) list \<Rightarrow> (string \<times> pyval) list"
  and dump_items :: "(string \<times> pyval) list \<Rightarrow> (string \<times> pyval) list"
  and dump_list :: "pyval list \<Rightarrow> pyval list" where
  "dump_value (PyModel fs) = PyDict (dump_fields fs)"
| "dump_value (PyDict kvs) = PyDict (dump_items kvs)"
| "dump_value (PyList xs) = PyList (dump_list xs)"
| "dump_value PyNone = PyNone"
| "dump_value (PyBool b) = PyBool b"
| "dump_value (PyInt i) = PyInt i"
| "dump_value (PyStr s) = PyStr s"
| "dump_fields [] = []"
| "dump_fields ((k, v) # fs) =
     (if v = PyNone then dump_fields fs else (k, dump_value v) # dump_fields fs)"
| "dump_items [] = []"
| "dump_items ((k, v) # kvs) = (k, dump_value v) # dump_items kvs"
| "dump_list [] = []"
| "dump_list (x # xs) = dump_value x # dump_list xs"

definition model_dump :: "(string \<times> pyval) list \<Rightarrow> pyval" where
  "model_dump search_request = PyDict (dump_fields search_request)"

section \<open>Endpoints\<close>

text \<open>
  The POST handlers of \<^verbatim>\<open>main.py\<close>, one constructor per handler function (the
  function's name, capitalised). Every handler has the same body: it reads the five
  \<^verbatim>\<open>galaxy-*\<close> header parameters, takes its URL from the settings, and calls
  \<^verbatim>\<open>call_enformion_api\<close>; the handlers differ in the URL, in the default search type
  and in where the request body comes from.
\<close>

datatype endpoint =
    Contact_enrichment
  | Caller_id
  | Email_id
  | Contact_id
  | Address_id
  | Address_autocomplete
  | Person_search
  | Reverse_phone_search
  | Id_verification
  | Census_search
  | Divorce_search
  | Linkedin_id
  | Property_search_v2
  | Business_search
  | Business_search_v2
  | Domain_search
  | Workplace_search
  | Business_id
  | Contact_enrichment_plus
  | Contact_id_plus
  | Caller_id_plus
  | Email_id_plus
  | Address_id_plus
  | Criminal_search_v2
  | Debt_v2
  | Eviction_search
  | Marriage_search
  | Ofac_search
  | Pre_foreclosure_search_v2
  | Professional_license_search
  | Vehicle_ownership_search
  | Eleadverify
  | Data_alerts_add_subscription
  | Data_alerts_remove_subscription
  | Data_alerts_get_subscription
  | Data_alerts_count_alert
  | Data_alerts_get_alert

text \<open>The path each handler is mounted on (\<^verbatim>\<open>@app.post(path)\<close>).\<close>

fun path :: "endpoint \<Rightarrow> string" where
  "path Contact_enrichment = ''/contact-enrichment''"
| "path Caller_id = ''/caller-id''"
| "path Email_id = ''/email-id''"
| "path Contact_id = ''/contact-id''"
| "path Address_id = ''/address-id''"
| "path Address_autocomplete = ''/address-autocomplete''"
| "path Person_search = ''/person-search''"
| "path Reverse_phone_search = ''/reverse-phone-search''"
| "path Id_verification = ''/id-verification''"
| "path Census_search = ''/census-search''"
| "path Divorce_search = ''/divorce-search''"
| "path Linkedin_id = ''/linkedin-id''"
| "path Property_search_v2 = ''/property-search-v2''"
| "path Business_search = ''/business-search''"
| "path Business_search_v2 = ''/business-search-v2''"
| "path Domain_search = ''/domain-search''"
| "path Workplace_search = ''/workplace-search''"
| "path Business_id = ''/business-id''"
| "path Contact_enrichment_plus = ''/contact-enrichment-plus''"
| "path Contact_id_plus = ''/contact-id-plus''"
| "path Caller_id_plus = ''/caller-id-plus''"
| "path Email_id_plus = ''/email-id-plus''"
| "path Address_id_plus = ''/address-id-plus''"
| "path Criminal_search_v2 = ''/criminal-search-v2''"
| "path Debt_v2 = ''/debt-v2''"
| "path Eviction_search = ''/eviction-search''"
| "path Marriage_search = ''/marriage-search''"
| "path Ofac_search = ''/ofac-search''"
| "path Pre_foreclosure_search_v2 = ''/pre-foreclosure-search-v2''"
| "path Professional_license_search = ''/professional-license-search''"
| "path Vehicle_ownership_search = ''/vehicle-ownership-search''"
| "path Eleadverify = ''/eleadverify''"
| "path Data_alerts_add_subscription = ''/data-alerts/add-subscription''"
| "path Data_alerts_remove_subscription = ''/data-alerts/remove-subscription''"
| "path Data_alerts_get_subscription = ''/data-alerts/get-subscription''"
| "path Data_alerts_count_alert = ''/data-alerts/count-alert''"
| "path Data_alerts_get_alert = ''/data-alerts/get-alert''"

text \<open>The first argument of the handler's \<^verbatim>\<open>call_enformion_api\<close> call.\<close>

fun api_url :: "Settings \<Rightarrow> endpoint \<Rightarrow> string" where
  "api_url settings Contact_enrichment = CONTACT_ENRICHMENT_API_URL settings"
| "api_url settings Caller_id = CALLER_ID_API_URL settings"
| "api_url settings Email_id = EMAIL_ID_API_URL settings"
| "api_url settings Contact_id = CONTACT_ID_API_URL settings"
| "api_url settings Address_id = ADDRESS_ID_API_URL settings"
| "api_url settings Address_autocomplete = ADDRESS_AUTOCOMPLETE_API_URL settings"
| "api_url settings Person_search = PERSON_SEARCH_API_URL settings"
| "api_url settings Reverse_phone_search = REVERSE_PHONE_API_URL settings"
| "api_url settings Id_verification = ID_VERIFICATION_API_URL settings"
| "api_url settings Census_search = CENSUS_SEARCH_API_URL settings"
| "api_url settings Divorce_search = DIVORCE_SEARCH_API_URL settings"
| "api_url settings Linkedin_id = LINKEDIN_ID_API_URL settings"
| "api_url settings Property_search_v2 = PROPERTY_SEARCH_V2_API_URL settings"
| "api_url settings Business_search = BUSINESS_SEARCH_V2_API_URL settings"
| "api_url settings Business_search_v2 = BUSINESS_SEARCH_V2_API_URL settings"
| "api_url settings Domain_search = DOMAIN_SEARCH_API_URL settings"
| "api_url settings Workplace_search = WORKPLACE_SEARCH_API_URL settings"
| "api_url settings Business_id = BUSINESS_ID_API_URL settings"
| "api_url settings Contact_enrichment_plus = CONTACT_ENRICHMENT_PLUS_API_URL settings"
| "api_url settings Contact_id_plus = CONTACT_ID_PLUS_API_URL settings"
| "api_url settings Caller_id_plus = CALLER_ID_PLUS_API_URL settings"
| "api_url settings Email_id_plus = EMAIL_ID_PLUS_API_URL settings"
| "api_url settings Address_id_plus = ADDRESS_ID_PLUS_API_URL settings"
| "api_url settings Criminal_search_v2 = CRIMINAL_SEARCH_V2_API_URL settings"
| "api_url settings Debt_v2 = DEBT_SEARCH_V2_API_URL settings"
| "api_url settings Eviction_search = EVICTION_SEARCH_API_URL settings"
| "api_url settings Marriage_search = MARRIAGE_SEARCH_API_URL settings"
| "api_url settings Ofac_search = OFAC_SEARCH_API_URL settings"
| "api_url settings Pre_foreclosure_search_v2 = PRE_FORECLOSURE_SEARCH_V2_API_URL settings"
| "api_url settings Professional_license_search = PRO_LICENSE_SEARCH_API_URL settings"
| "api_url settings Vehicle_ownership_search = VEHICLE_OWNERSHIP_SEARCH_API_URL settings"
| "api_url settings Eleadverify = ELEADVERIFY_API_URL settings"
| "api_url settings Data_alerts_add_subscription = DATA_ALERTS_ADD_SUBSCRIPTION_API_URL settings"
| "api_url settings Data_alerts_remove_subscription = DATA_ALERTS_REMOVE_SUBSCRIPTION_API_URL settings"
| "api_url settings Data_alerts_get_subscription = DATA_ALERTS_GET_SUBSCRIPTION_API_URL settings"
| "api_url settings Data_alerts_count_alert = DATA_ALERTS_COUNT_ALERT_API_URL settings"
| "api_url settings Data_alerts_get_alert = DATA_ALERTS_GET_ALERT_API_URL settings"

text \<open>
  The literal of \<^verbatim>\<open>galaxy_search_type or "..."\<close>. The handler \<^verbatim>\<open>person_search\<close> has no
  such expression: its header parameter is an enumeration whose default is
  \<^verbatim>\<open>PersonSearchType.person\<close>.
\<close>

fun default_search_type :: "endpoint \<Rightarrow> string" where
  "default_search_type Contact_enrichment = ''DevAPIContactEnrich''"
| "default_search_type Caller_id = ''DevAPICallerID''"
| "default_search_type Email_id = ''DevAPIEmailID''"
| "default_search_type Contact_id = ''DevAPIContactID''"
| "default_search_type Address_id = ''DevAPIAddressID''"
| "default_search_type Address_autocomplete = ''AddressSearch''"
| "default_search_type Person_search = ''Person''"
| "default_search_type Reverse_phone_search = ''ReversePhoneSearch''"
| "default_search_type Id_verification = ''DevAPIIDVerification''"
| "default_search_type Census_search = ''Census''"
| "default_search_type Divorce_search = ''Divorce''"
| "default_search_type Linkedin_id = ''LinkedInID''"
| "default_search_type Property_search_v2 = ''PropertyV2Search''"
| "default_search_type Business_search = ''BusinessV2Search''"
| "default_search_type Business_search_v2 = ''BusinessV2Search''"
| "default_search_type Domain_search = ''DomainSearch''"
| "default_search_type Workplace_search = ''WorkplaceSearch''"
| "default_search_type Business_id = ''BusinessID''"
| "default_search_type Contact_enrichment_plus = ''ContactEnrichPlus''"
| "default_search_type Contact_id_plus = ''ContactIdPlus''"
| "default_search_type Caller_id_plus = ''PhoneEnrichPlus''"
| "default_search_type Email_id_plus = ''EmailEnrichPlus''"
| "default_search_type Address_id_plus = ''AddressIdPlus''"
| "default_search_type Criminal_search_v2 = ''CriminalSearchV2''"
| "default_search_type Debt_v2 = ''DebtSearchV2''"
| "default_search_type Eviction_search = ''EvictionSearch''"
| "default_search_type Marriage_search = ''MarriageSearch''"
| "default_search_type Ofac_search = ''OfacSearch''"
| "default_search_type Pre_foreclosure_search_v2 = ''ForeclosureV2Search''"
| "default_search_type Professional_license_search = ''ProLicense''"
| "default_search_type Vehicle_ownership_search = ''VehicleRegistrationSearch''"
| "default_search_type Eleadverify = ''eLeadVerify''"
| "default_search_type Data_alerts_add_subscription = ''DataAlertsAddSubscription''"
| "default_search_type Data_alerts_remove_subscription = ''DataAlertsRemoveSubscription''"
| "default_search_type Data_alerts_get_subscription = ''DataAlertsGetSubscription''"
| "default_search_type Data_alerts_count_alert = ''DataAlertsCountAlert''"
| "default_search_type Data_alerts_get_alert = ''DataAlertsGetAlert''"

text \<open>
  The handlers whose body parameter is a request model of \<^verbatim>\<open>models.py\<close> and that send
  \<^verbatim>\<open>search_request.model_dump(by_alias=True, exclude_none=True)\<close>; the others declare
  \<^verbatim>\<open>payload: dict[str, Any] = Body(...)\<close> and send the payload.
\<close>

definition schema_backed :: "endpoint \<Rightarrow> bool" where
  "schema_backed ep \<longleftrightarrow> ep \<in> set [
     Contact_enrichment, Caller_id, Email_id, Contact_id,
     Address_id, Address_autocomplete, Person_search, Reverse_phone_search,
     Id_verification, Census_search, Divorce_search, Linkedin_id,
     Property_search_v2, Business_search, Business_search_v2, Domain_search,
     Workplace_search, Business_id]"

text \<open>
  \<^verbatim>\<open>Header(None, alias=a)\<close> of FastAPI: the value of the inbound header named \<open>a\<close>,
  or \<^verbatim>\<open>None\<close> when the request has no such header. Inbound header names are lower-case,
  as the server delivers them.
\<close>

type_synonym inbound_headers = "(string \<times> string) list"

definition Header :: "inbound_headers \<Rightarrow> string \<Rightarrow> string option" where
  "Header hdrs alias = map_of hdrs alias"

text \<open>\<^verbatim>\<open>galaxy_search_type or "..."\<close>, whose right operand is a string.\<close>

fun or_default :: "string option \<Rightarrow> string \<Rightarrow> string" where
  "or_default None d = d"
| "or_default (Some s) d = (if s = [] then d else s)"

text \<open>
  \<^verbatim>\<open>class PersonSearchType(str, Enum)\<close> and the header parameter of \<^verbatim>\<open>person_search\<close>
  declared with it: an absent header is the default \<^verbatim>\<open>PersonSearchType.person\<close>, a
  header that is no member's value is refused by FastAPI with status 422.
\<close>

datatype PersonSearchType = person | teaser

fun PersonSearchType_value :: "PersonSearchType \<Rightarrow> string" where
  "PersonSearchType_value person = ''Person''"
| "PersonSearchType_value teaser = ''Teaser''"

definition person_search_type_header :: "inbound_headers \<Rightarrow> error + PersonSearchType" where
  "person_search_type_header hdrs =
     (case Header hdrs ''galaxy-search-type'' of
        None \<Rightarrow> Inr person
      | Some v \<Rightarrow>
          if v = PersonSearchType_value person then Inr person
          else if v = PersonSearchType_value teaser then Inr teaser
          else Inl (RequestValidationError ''galaxy-search-type''))"

text \<open>The second argument of the handler's \<^verbatim>\<open>call_enformion_api\<close> call.\<close>

definition search_type_of :: "endpoint \<Rightarrow> inbound_headers \<Rightarrow> error + string" where
  "search_type_of ep hdrs =
     (if ep = Person_search
      then (case person_search_type_header hdrs of
              Inl e \<Rightarrow> Inl e
            | Inr galaxy_search_type \<Rightarrow> Inr (PersonSearchType_value galaxy_search_type))
      else Inr (or_default (Header hdrs ''galaxy-search-type'') (default_search_type ep)))"

text \<open>
  The body common to all handlers, from the request body on: the call of
  \<^verbatim>\<open>call_enformion_api\<close> with the handler's URL, the search type and the four header
  parameters.
\<close>

definition forward ::
  "'b transport \<Rightarrow> (string \<Rightarrow> 'j option) \<Rightarrow> endpoint \<Rightarrow> Settings \<Rightarrow> inbound_headers \<Rightarrow> 'b
   \<Rightarrow> 'b io_state \<Rightarrow> (error + 'j) \<times> 'b io_state" where
  "forward transport loads ep settings hdrs request_body w =
     (case search_type_of ep hdrs of
        Inl e \<Rightarrow> (Inl e, w)
      | Inr search_type \<Rightarrow>
          call_enformion_api transport loads (api_url settings ep) search_type request_body settings
            (Header hdrs ''galaxy-ap-name'') (Header hdrs ''galaxy-ap-password'')
            (Header hdrs ''galaxy-client-session-id'') (Header hdrs ''galaxy-client-type'') w)"

text \<open>A handler with a request model: the body is the dump of the parsed request.\<close>

definition schema_endpoint ::
  "pyval transport \<Rightarrow> (string \<Rightarrow> 'j option) \<Rightarrow> endpoint \<Rightarrow> Settings \<Rightarrow> inbound_headers
   \<Rightarrow> (string \<times> pyval) list \<Rightarrow> pyval io_state \<Rightarrow> (error + 'j) \<times> pyval io_state" where
  "schema_endpoint transport loads ep settings hdrs search_request w =
     forward transport loads ep settings hdrs (model_dump search_request) w"

text \<open>A handler with an open payload: the body is the payload.\<close>

definition open_endpoint ::
  "'b transport \<Rightarrow> (string \<Rightarrow> 'j option) \<Rightarrow> endpoint \<Rightarrow> Settings \<Rightarrow> inbound_headers \<Rightarrow> 'b
   \<Rightarrow> 'b io_state \<Rightarrow> (error + 'j) \<times> 'b io_state" where
  "open_endpoint transport loads ep settings hdrs payload w =
     forward transport loads ep settings hdrs payload w"

text \<open>
  The two handlers with a validation dependency. The fields of the request class (their
  aliases, their order, the fields the validator does not read) are declared in
  \<^verbatim>\<open>models.py\<close>, so the view of a request as its field list is a parameter.
\<close>

definition contact_enrichment ::
  "(ContactEnrichmentRequest \<Rightarrow> (string \<times> pyval) list)
   \<Rightarrow> pyval transport \<Rightarrow> (string \<Rightarrow> 'j option) \<Rightarrow> Settings \<Rightarrow> inbound_headers
   \<Rightarrow> ContactEnrichmentRequest \<Rightarrow> pyval io_state \<Rightarrow> (error + 'j) \<times> pyval io_state" where
  "contact_enrichment model_fields transport loads settings hdrs request w =
     (case validate_contact_enrichment_request request of
        Inl e \<Rightarrow> (Inl e, w)
      | Inr search_request \<Rightarrow>
          schema_endpoint transport loads Contact_enrichment settings hdrs
            (model_fields search_request) w)"

definition id_verification ::
  "(IdVerificationRequest \<Rightarrow> (string \<times> pyval) list)
   \<Rightarrow> pyval transport \<Rightarrow> (string \<Rightarrow> 'j option) \<Rightarrow> Settings \<Rightarrow> inbound_headers
   \<Rightarrow> IdVerificationRequest \<Rightarrow> pyval io_state \<Rightarrow> (error + 'j) \<times> pyval io_state" where
  "id_verification model_fields transport loads settings hdrs request w =
     (case validate_id_verification_request request of
        Inl e \<Rightarrow> (Inl e, w)
      | Inr search_request \<Rightarrow>
          schema_endpoint transport loads Id_verification settings hdrs
            (model_fields search_request) w)"

definition business_search ::
  "pyval transport \<Rightarrow> (string \<Rightarrow> 'j option) \<Rightarrow> Settings \<Rightarrow> inbound_headers
   \<Rightarrow> (string \<times> pyval) list \<Rightarrow> pyval io_state \<Rightarrow> (error + 'j) \<times> pyval io_state" where
  "business_search transport loads settings hdrs search_request w =
     schema_endpoint transport loads Business_search settings hdrs search_request w"

definition business_search_v2 ::
  "pyval transport \<Rightarrow> (string \<Rightarrow> 'j option) \<Rightarrow> Settings \<Rightarrow> inbound_headers
   \<Rightarrow> (string \<times> pyval) list \<Rightarrow> pyval io_state \<Rightarrow> (error + 'j) \<times> pyval io_state" where
  "business_search_v2 transport loads settings hdrs search_request w =
     schema_endpoint transport loads Business_search_v2 settings hdrs search_request w"

section \<open>The rules as the specification words them\<close>

text \<open>
  The criteria groups of the contact-enrichment rule, in the specification's order: a
  name with any of its three parts, a phone, an address, an email. A group is populated
  when its value is truthy.
\<close>

definition contact_groups :: "ContactEnrichmentRequest \<Rightarrow> bool list" where
  "contact_groups request =
     [truthy (first_name request) \<or> truthy (middle_name request) \<or> truthy (last_name request),
      truthy (phone request),
      truthy (address request),
      truthy (email request)]"

text \<open>
  The criteria groups of the identity-verification rule: a name part, a non-empty list
  of phones, an address line, a non-empty list of emails, an SSN.
\<close>

definition id_groups :: "IdVerificationRequest \<Rightarrow> bool list" where
  "id_groups request =
     [truthy (idv_first_name request) \<or> truthy (idv_middle_name request)
        \<or> truthy (idv_last_name request),
      truthy (phones request),
      truthy (address_line_1 request) \<or> truthy (address_line_2 request),
      truthy (emails request),
      truthy (ssn request)]"

definition populated :: "bool list \<Rightarrow> nat" where
  "populated groups = length (filter (\<lambda>g. g) groups)"

text \<open>
  The effective value of a credential: the per-call override when one is supplied, and
  otherwise the configured default. A value is supplied when it is a non-empty string;
  an absent header and an empty one both leave the default in force.
\<close>

definition effective :: "string option \<Rightarrow> string option \<Rightarrow> string option" where
  "effective override fallback =
     (case override of
        None \<Rightarrow> fallback
      | Some s \<Rightarrow> if s = [] then fallback else Some s)"

section \<open>Example inputs\<close>

definition idle :: "'b io_state" where
  "idle = \<lparr> posted = [], logged = [] \<rparr>"

definition configured :: Settings where
  "configured = default_settings \<lparr> GALAXY_AP_NAME := Some ''acct'',
                                  GALAXY_AP_PASSWORD := Some ''s3cr3t'' \<rparr>"

definition upstream_ok :: "'b transport" where
  "upstream_ok request = Response 200 ''{}''"

definition upstream_422 :: "'b transport" where
  "upstream_422 request = Response 422 ''{error: bad field}''"

definition upstream_garbled :: "'b transport" where
  "upstream_garbled request = Response 200 ''<html>''"

definition upstream_timeout :: "'b transport" where
  "upstream_timeout request = TimeoutException ''read timeout''"

definition upstream_down :: "'b transport" where
  "upstream_down request = RequestError ''connection refused''"

definition loads_stub :: "string \<Rightarrow> pyval option" where
  "loads_stub body = (if body = ''{}'' then Some (PyDict []) else None)"

definition no_contact :: ContactEnrichmentRequest where
  "no_contact = \<lparr> first_name = PyNone, middle_name = PyNone, last_name = PyNone,
                   phone = PyNone, address = PyNone, email = PyNone \<rparr>"

definition no_identity :: IdVerificationRequest where
  "no_identity = \<lparr> idv_first_name = PyNone, idv_middle_name = PyNone, idv_last_name = PyNone,
                    phones = PyList [], address_line_1 = PyNone, address_line_2 = PyNone,
                    emails = PyList [], ssn = PyNone \<rparr>"

section \<open>The validation gate\<close>

lemma contact_count_groups:
  "contact_criteria_count request = populated (contact_groups request)"
  by (simp add: contact_criteria_count_def populated_def contact_groups_def bump_def)

lemma id_count_groups:
  "id_criteria_count request = populated (id_groups request)"
  by (simp add: id_criteria_count_def populated_def id_groups_def bump_def)

text \<open>
  C2. The contact-enrichment gate accepts a request exactly when at least two of the four
  criteria groups (a name with any of its three parts, phone, address, email) are
  populated; a name counts once however many parts are filled. A request with fewer than
  two populated groups is refused with status 400 and a detail that names Name, Phone,
  Address and Email, and the handler then returns this error with the state unchanged:
  nothing is posted. An accepted request is handed to the upstream call as it is.
\<close>

theorem contact_enrichment_gate:
  "(validate_contact_enrichment_request request = Inr request
      \<longleftrightarrow> 2 \<le> populated (contact_groups request))
   \<and> (validate_contact_enrichment_request request = Inl (HTTPException 400 contact_enrichment_detail)
      \<longleftrightarrow> populated (contact_groups request) < 2)
   \<and> (populated (contact_groups request) < 2 \<longrightarrow>
        contact_enrichment model_fields transport loads settings hdrs request w
          = (Inl (HTTPException 400 contact_enrichment_detail), w))
   \<and> (2 \<le> populated (contact_groups request) \<longrightarrow>
        contact_enrichment model_fields transport loads settings hdrs request w
          = schema_endpoint transport loads Contact_enrichment settings hdrs (model_fields request) w)
   \<and> sublist ''Name'' contact_enrichment_detail
   \<and> sublist ''Phone'' contact_enrichment_detail
   \<and> sublist ''Address'' contact_enrichment_detail
   \<and> sublist ''Email'' contact_enrichment_detail"
proof -
  have v: "validate_contact_enrichment_request request =
      (if populated (contact_groups request) < 2
       then Inl (HTTPException 400 contact_enrichment_detail) else Inr request)"
    by (simp add: validate_contact_enrichment_request_def contact_count_groups)
  have names: "sublist ''Name'' contact_enrichment_detail
     \<and> sublist ''Phone'' contact_enrichment_detail
     \<and> sublist ''Address'' contact_enrichment_detail
     \<and> sublist ''Email'' contact_enrichment_detail"
    unfolding contact_enrichment_detail_def by code_simp
  show ?thesis
    using names by (simp add: v contact_enrichment_def)
qed

text \<open>
  The four cases of the specification: a name alone and the empty request are refused (and
  the handler posts nothing), a name with a phone and a phone with an address and an email
  are accepted.
\<close>

theorem contact_enrichment_gate_witness:
  "validate_contact_enrichment_request (no_contact\<lparr>first_name := PyStr ''Ada''\<rparr>)
     = Inl (HTTPException 400 contact_enrichment_detail)
   \<and> validate_contact_enrichment_request
        (no_contact\<lparr>first_name := PyStr ''Ada'', phone := PyStr ''5550100''\<rparr>)
     = Inr (no_contact\<lparr>first_name := PyStr ''Ada'', phone := PyStr ''5550100''\<rparr>)
   \<and> validate_contact_enrichment_request
        (no_contact\<lparr>phone := PyStr ''5550100'', address := PyStr ''1 Main St'',
                     email := PyStr ''a@b.c''\<rparr>)
     = Inr (no_contact\<lparr>phone := PyStr ''5550100'', address := PyStr ''1 Main St'',
                        email := PyStr ''a@b.c''\<rparr>)
   \<and> validate_contact_enrichment_request no_contact
     = Inl (HTTPException 400 contact_enrichment_detail)
   \<and> contact_enrichment (\<lambda>r. []) upstream_ok loads_stub configured []
        (no_contact\<lparr>first_name := PyStr ''Ada''\<rparr>) idle
     = (Inl (HTTPException 400 contact_enrichment_detail), idle)"
  using contact_enrichment_gate [of "no_contact\<lparr>first_name := PyStr ''Ada''\<rparr>"
          "\<lambda>r. []" upstream_ok loads_stub configured "[]" idle]
        contact_enrichment_gate [of "no_contact\<lparr>first_name := PyStr ''Ada'', phone := PyStr ''5550100''\<rparr>"
          "\<lambda>r. []" upstream_ok loads_stub configured "[]" idle]
        contact_enrichment_gate [of "no_contact\<lparr>phone := PyStr ''5550100'', address := PyStr ''1 Main St'', email := PyStr ''a@b.c''\<rparr>"
          "\<lambda>r. []" upstream_ok loads_stub configured "[]" idle]
        contact_enrichment_gate [of no_contact "\<lambda>r. []" upstream_ok loads_stub configured "[]" idle]
  by (simp add: populated_def contact_groups_def no_contact_def)

text \<open>
  C3. The identity-verification gate accepts a request exactly when at least two of the
  five criteria groups (a name part, a non-empty list of phones, an address line, a
  non-empty list of emails, an SSN) are populated. A request with fewer is refused with
  status 400 and a detail that names SSN, Name, Phone, Address and Email, and the handler
  then returns this error with the state unchanged: nothing is posted.
\<close>

theorem id_verification_gate:
  "(validate_id_verification_request request = Inr request
      \<longleftrightarrow> 2 \<le> populated (id_groups request))
   \<and> (validate_id_verification_request request = Inl (HTTPException 400 id_verification_detail)
      \<longleftrightarrow> populated (id_groups request) < 2)
   \<and> (populated (id_groups request) < 2 \<longrightarrow>
        id_verification model_fields transport loads settings hdrs request w
          = (Inl (HTTPException 400 id_verification_detail), w))
   \<and> (2 \<le> populated (id_groups request) \<longrightarrow>
        id_verification model_fields transport loads settings hdrs request w
          = schema_endpoint transport loads Id_verification settings hdrs (model_fields request) w)
   \<and> sublist ''SSN'' id_verification_detail
   \<and> sublist ''Name'' id_verification_detail
   \<and> sublist ''Phone'' id_verification_detail
   \<and> sublist ''Address'' id_verification_detail
   \<and> sublist ''Email'' id_verification_detail"
proof -
  have v: "validate_id_verification_request request =
      (if populated (id_groups request) < 2
       then Inl (HTTPException 400 id_verification_detail) else Inr request)"
    by (simp add: validate_id_verification_request_def id_count_groups)
  have names: "sublist ''SSN'' id_verification_detail
     \<and> sublist ''Name'' id_verification_detail
     \<and> sublist ''Phone'' id_verification_detail
     \<and> sublist ''Address'' id_verification_detail
     \<and> sublist ''Email'' id_verification_detail"
    unfolding id_verification_detail_def by code_simp
  show ?thesis
    using names by (simp add: v id_verification_def)
qed

text \<open>
  The three cases of the specification: an SSN alone is refused (and the handler posts
  nothing), an SSN with one phone and a name with one email are accepted.
\<close>

theorem id_verification_gate_witness:
  "validate_id_verification_request (no_identity\<lparr>ssn := PyStr ''078051120''\<rparr>)
     = Inl (HTTPException 400 id_verification_detail)
   \<and> validate_id_verification_request
        (no_identity\<lparr>ssn := PyStr ''078051120'', phones := PyList [PyStr ''5550100'']\<rparr>)
     = Inr (no_identity\<lparr>ssn := PyStr ''078051120'', phones := PyList [PyStr ''5550100'']\<rparr>)
   \<and> validate_id_verification_request
        (no_identity\<lparr>idv_last_name := PyStr ''Byron'', emails := PyList [PyStr ''a@b.c'']\<rparr>)
     = Inr (no_identity\<lparr>idv_last_name := PyStr ''Byron'', emails := PyList [PyStr ''a@b.c'']\<rparr>)
   \<and> id_verification (\<lambda>r. []) upstream_ok loads_stub configured []
        (no_identity\<lparr>ssn := PyStr ''078051120''\<rparr>) idle
     = (Inl (HTTPException 400 id_verification_detail), idle)"
  using id_verification_gate [of "no_identity\<lparr>ssn := PyStr ''078051120''\<rparr>"
          "\<lambda>r. []" upstream_ok loads_stub configured "[]" idle]
        id_verification_gate [of "no_identity\<lparr>ssn := PyStr ''078051120'', phones := PyList [PyStr ''5550100'']\<rparr>"
          "\<lambda>r. []" upstream_ok loads_stub configured "[]" idle]
        id_verification_gate [of "no_identity\<lparr>idv_last_name := PyStr ''Byron'', emails := PyList [PyStr ''a@b.c'']\<rparr>"
          "\<lambda>r. []" upstream_ok loads_stub configured "[]" idle]
  by (simp add: populated_def id_groups_def no_identity_def)

end
